theory Spec2Isabelle
  imports Complex_Main "HOL-Library.Multiset" "HOL-Library.Log_Nat"
begin

section \<open>The account-ledger core of the River Bank System\<close>

text \<open>
  The development embeds three Python modules: \<^verbatim>\<open>users.py\<close> (class UsersDB, the account
  store), \<^verbatim>\<open>transactions.py\<close> (class TransactionsDB, the ledger store) and
  \<^verbatim>\<open>actions.py\<close> (class Actions: deposit, withdraw, transfer).

  Modelling decisions:
  \<^item> A Python \<^verbatim>\<open>float\<close> is an IEEE 754 binary64 value: a finite value, an infinity or nan.
    Addition rounds the exact sum to the nearest such value, ties to even.
  \<^item> The SQLite file is a record holding both tables, their AUTOINCREMENT counters and
    the store's clock. Every Python method takes the database and returns what it raises
    or returns together with the database it leaves behind.
  \<^item> A raised exception is \<open>Inl\<close>, a normal return is \<open>Inr\<close>.
  \<^item> \<^verbatim>\<open>cursor.execute\<close> can raise \<^verbatim>\<open>sqlite3.OperationalError\<close>: the file is locked or cannot
    be reached, the disk or the id space is full. Each of the two connections (the one of
    UsersDB, the one of TransactionsDB) carries two flags saying whether its SELECT
    statements and whether its writing statements (INSERT, UPDATE) fail so.
  \<^item> What SQLite and Python do with text that may or may not spell a number, and how
    SQLite prints a number as text, is left open: those functions are parameters.
  \<^item> Logging calls have no effect on either store and are left out.
\<close>

subsection \<open>Python floats\<close>

text \<open>
  \<open>Finite r\<close> is the finite float of value \<open>r\<close>; the two zeros are not told apart.
\<close>

datatype double = Finite real | PInf | NInf | NaN

text \<open>Rounding a real to the nearest integer, a tie going to the even one.\<close>

definition round_half_even :: "real \<Rightarrow> int" where
  "round_half_even x =
     (let f = \<lfloor>x\<rfloor>; d = x - of_int f
      in if d < 1 / 2 then f else if 1 / 2 < d then f + 1 else if even f then f else f + 1)"

text \<open>
  The binary exponent of a real other than zero: the \<open>e\<close> with
  \<open>2 powi e \<le> \<bar>x\<bar> < 2 powi (e + 1)\<close> (lemma \<open>float_exponent_bounds\<close> below), computed
  from the bit length of an integer.
\<close>

definition float_exponent :: "real \<Rightarrow> int" where
  "float_exponent x =
     (if 1 \<le> \<bar>x\<bar> then bitlen \<lfloor>\<bar>x\<bar>\<rfloor> - 1 else - bitlen (\<lceil>1 / \<bar>x\<bar>\<rceil> - 1))"

text \<open>
  Rounding a real to binary64 (round to nearest, ties to even): 53 significant bits,
  exponents from -1022 (below that the spacing stays \<open>2 powi (- 1074)\<close>) up to 1023; a
  result of magnitude \<open>2 powi 1024\<close> or more is an infinity.
\<close>

definition round_double :: "real \<Rightarrow> double" where
  "round_double x =
     (if x = 0 then Finite 0
      else
        (let e = max (float_exponent x) (- 1022);
             q = 2 powi (e - 52);
             y = of_int (round_half_even (\<bar>x\<bar> / q)) * q
         in if 2 powi 1024 \<le> y then (if 0 < x then PInf else NInf)
            else Finite (if 0 < x then y else - y)))"

text \<open>\<^verbatim>\<open>x + y\<close>, \<^verbatim>\<open>-x\<close>, \<^verbatim>\<open>x <= y\<close> and \<^verbatim>\<open>x < y\<close> on floats.\<close>

fun fadd :: "double \<Rightarrow> double \<Rightarrow> double" where
  "fadd NaN _ = NaN"
| "fadd _ NaN = NaN"
| "fadd PInf NInf = NaN"
| "fadd NInf PInf = NaN"
| "fadd PInf _ = PInf"
| "fadd _ PInf = PInf"
| "fadd NInf _ = NInf"
| "fadd _ NInf = NInf"
| "fadd (Finite x) (Finite y) = round_double (x + y)"

fun fneg :: "double \<Rightarrow> double" where
  "fneg (Finite x) = Finite (- x)"
| "fneg PInf = NInf"
| "fneg NInf = PInf"
| "fneg NaN = NaN"

fun fle :: "double \<Rightarrow> double \<Rightarrow> bool" where
  "fle NaN _ = False"
| "fle _ NaN = False"
| "fle NInf _ = True"
| "fle _ PInf = True"
| "fle PInf _ = False"
| "fle _ NInf = False"
| "fle (Finite x) (Finite y) = (x \<le> y)"

fun flt :: "double \<Rightarrow> double \<Rightarrow> bool" where
  "flt NaN _ = False"
| "flt _ NaN = False"
| "flt PInf _ = False"
| "flt _ NInf = False"
| "flt NInf _ = True"
| "flt _ PInf = True"
| "flt (Finite x) (Finite y) = (x < y)"

subsection \<open>Python values and exceptions\<close>

datatype pyval = PyNone | PyInt int | PyFloat double | PyStr string

datatype exn =
    ValueError string
  | TypeError
  | OverflowError
  | IntegrityError
  | OperationalError

text \<open>
  The functions of SQLite and of Python that the model leaves open:
  \<^item> \<open>sqlite_text_to_real\<close>: the number a column of REAL affinity stores for a text that
    spells a number (\<^verbatim>\<open>'12.5'\<close>, \<^verbatim>\<open>' 1e3 '\<close>); None for a text it keeps as text;
  \<^item> \<open>sqlite_text_to_rowid\<close>: the integer an INTEGER PRIMARY KEY stores for a text that
    spells one (\<^verbatim>\<open>'7'\<close>, \<^verbatim>\<open>'9.0'\<close>); None for a text it refuses;
  \<^item> \<open>sqlite_number_to_text\<close>: the text a column of TEXT affinity stores for a number;
  \<^item> \<open>python_float_of_str\<close>: \<^verbatim>\<open>float(s)\<close> for a string, a float or the ValueError raised.
\<close>

record library =
  sqlite_text_to_real :: "string \<Rightarrow> double option"
  sqlite_text_to_rowid :: "string \<Rightarrow> int option"
  sqlite_number_to_text :: "pyval \<Rightarrow> string"
  python_float_of_str :: "string \<Rightarrow> exn + double"

text \<open>
  \<^verbatim>\<open>float(x)\<close>: None raises TypeError; an int converts to the nearest float and raises
  OverflowError beyond the finite range; a float is returned as it is.
\<close>

fun py_float :: "library \<Rightarrow> pyval \<Rightarrow> exn + double" where
  "py_float lib PyNone = Inl TypeError"
| "py_float lib (PyInt i) =
     (case round_double (real_of_int i) of
        Finite x \<Rightarrow> Inr (Finite x)
      | _ \<Rightarrow> Inl OverflowError)"
| "py_float lib (PyFloat x) = Inr x"
| "py_float lib (PyStr s) = python_float_of_str lib s"

text \<open>
  Binding a Python value to a statement parameter: nan is bound as NULL, an int outside
  64 bits raises OverflowError.
\<close>

definition bind_double :: "double \<Rightarrow> pyval" where
  "bind_double x = (if x = NaN then PyNone else PyFloat x)"

fun bind_param :: "pyval \<Rightarrow> exn + pyval" where
  "bind_param (PyInt i) =
     (if - (2 ^ 63) \<le> i \<and> i < 2 ^ 63 then Inr (PyInt i) else Inl OverflowError)"
| "bind_param (PyFloat x) = Inr (bind_double x)"
| "bind_param v = Inr v"

text \<open>
  The value a column stores for a bound value. REAL affinity turns an integer into the
  nearest float and a text that spells a number into that number; TEXT affinity turns a
  number into its text.
\<close>

fun real_affinity :: "library \<Rightarrow> pyval \<Rightarrow> pyval" where
  "real_affinity lib (PyInt i) = PyFloat (round_double (real_of_int i))"
| "real_affinity lib (PyStr s) =
     (case sqlite_text_to_real lib s of Some x \<Rightarrow> PyFloat x | None \<Rightarrow> PyStr s)"
| "real_affinity lib v = v"

fun text_affinity :: "library \<Rightarrow> pyval \<Rightarrow> pyval" where
  "text_affinity lib (PyInt i) = PyStr (sqlite_number_to_text lib (PyInt i))"
| "text_affinity lib (PyFloat x) = PyStr (sqlite_number_to_text lib (PyFloat x))"
| "text_affinity lib v = v"

text \<open>
  The integer an INTEGER PRIMARY KEY stores for a bound value, None where SQLite reports a
  datatype mismatch: a float must be a whole number strictly between \<open>- 2 ^ 63\<close> and
  \<open>2 ^ 63\<close>, NULL is refused.
\<close>

fun rowid_of :: "library \<Rightarrow> pyval \<Rightarrow> int option" where
  "rowid_of lib (PyInt i) = Some i"
| "rowid_of lib (PyFloat (Finite x)) =
     (if of_int \<lfloor>x\<rfloor> = x \<and> - (2 ^ 63) < x \<and> x < 2 ^ 63 then Some \<lfloor>x\<rfloor> else None)"
| "rowid_of lib (PyFloat _) = None"
| "rowid_of lib (PyStr s) = sqlite_text_to_rowid lib s"
| "rowid_of lib PyNone = None"

subsection \<open>Tables\<close>

text \<open>
  \<^verbatim>\<open>tbl_accounts\<close>: id INTEGER PRIMARY KEY AUTOINCREMENT, username TEXT UNIQUE NOT NULL,
  display_name TEXT NOT NULL, password_hash TEXT NOT NULL, current_balance REAL,
  savings_balance REAL.
\<close>

record account_row =
  acc_id :: int
  acc_username :: pyval
  acc_display_name :: pyval
  acc_password_hash :: pyval
  acc_current_balance :: pyval
  acc_savings_balance :: pyval

text \<open>
  \<^verbatim>\<open>tbl_transactions\<close>: id, username, transaction_type, amount REAL NOT NULL, account, and
  timestamp DATETIME DEFAULT CURRENT_TIMESTAMP. A timestamp is the number of seconds since
  the epoch (UTC) that the text \<^verbatim>\<open>YYYY-MM-DD HH:MM:SS\<close> denotes.
\<close>

record txn_row =
  txn_id :: int
  txn_username :: string
  txn_type :: string
  txn_amount :: double
  txn_account :: string
  txn_timestamp :: int

text \<open>The write statements a connection has committed, in the order of their commits.\<close>

datatype stmt =
    is_InsertAccount: InsertAccount string
  | is_UpdateAccount: UpdateAccount string string pyval
  | is_InsertTransaction: InsertTransaction string string double string

record db =
  tbl_accounts :: "account_row list"
  accounts_seq :: int
  tbl_transactions :: "txn_row list"
  transactions_seq :: int
  clock :: int
  users_read_fault :: bool
  users_write_fault :: bool
  transactions_read_fault :: bool
  transactions_write_fault :: bool
  journal :: "stmt list"

type_synonym 'a outcome = "(exn + 'a) \<times> db"

text \<open>Sequencing of two statements of a method body: an exception ends the method.\<close>

definition and_then :: "unit outcome \<Rightarrow> (db \<Rightarrow> unit outcome) \<Rightarrow> unit outcome" where
  "and_then r f = (case r of (Inl e, s) \<Rightarrow> (Inl e, s) | (Inr _, s) \<Rightarrow> f s)"

subsection \<open>users.py\<close>

definition ALLOWED_COLUMNS :: "string list" where
  "ALLOWED_COLUMNS =
     [''id'', ''username'', ''display_name'', ''password_hash'',
      ''current_balance'', ''savings_balance'']"

text \<open>The column of a row that \<^verbatim>\<open>SELECT {column}\<close> reads and \<^verbatim>\<open>SET {column} = ?\<close> writes.\<close>

definition row_get :: "string \<Rightarrow> account_row \<Rightarrow> pyval" where
  "row_get column r =
     (if column = ''id'' then PyInt (acc_id r)
      else if column = ''username'' then acc_username r
      else if column = ''display_name'' then acc_display_name r
      else if column = ''password_hash'' then acc_password_hash r
      else if column = ''current_balance'' then acc_current_balance r
      else acc_savings_balance r)"

definition row_set :: "library \<Rightarrow> string \<Rightarrow> pyval \<Rightarrow> account_row \<Rightarrow> account_row" where
  "row_set lib column v r =
     (if column = ''id'' then (case rowid_of lib v of Some n \<Rightarrow> r\<lparr>acc_id := n\<rparr> | None \<Rightarrow> r)
      else if column = ''username'' then r\<lparr>acc_username := text_affinity lib v\<rparr>
      else if column = ''display_name'' then r\<lparr>acc_display_name := text_affinity lib v\<rparr>
      else if column = ''password_hash'' then r\<lparr>acc_password_hash := text_affinity lib v\<rparr>
      else if column = ''current_balance'' then r\<lparr>acc_current_balance := real_affinity lib v\<rparr>
      else r\<lparr>acc_savings_balance := real_affinity lib v\<rparr>)"

text \<open>\<^verbatim>\<open>WHERE username = ?\<close> with the parameter a Python str.\<close>

definition matches :: "string \<Rightarrow> account_row \<Rightarrow> bool" where
  "matches target_username r = (acc_username r = PyStr target_username)"

text \<open>
  The constraints of the table that an UPDATE of one column can break, each raised by
  sqlite3 as IntegrityError: NOT NULL on the three text columns, UNIQUE on username, and
  the integer primary key (unique, and a value it cannot store is a datatype mismatch). A
  statement that changes no row breaks nothing.
\<close>

definition update_violates ::
  "library \<Rightarrow> account_row list \<Rightarrow> string \<Rightarrow> string \<Rightarrow> pyval \<Rightarrow> bool" where
  "update_violates lib rows column target_username v =
     (let hit = filter (matches target_username) rows;
          rest = filter (\<lambda>r. \<not> matches target_username r) rows
      in hit \<noteq> [] \<and>
         (if column = ''id'' then
            (case rowid_of lib v of
               Some n \<Rightarrow> 1 < length hit \<or> n \<in> set (map acc_id rest)
             | None \<Rightarrow> True)
          else if column = ''username'' then
            v = PyNone \<or> 1 < length hit \<or> text_affinity lib v \<in> set (map acc_username rest)
          else if column = ''display_name'' \<or> column = ''password_hash'' then
            v = PyNone
          else False))"

text \<open>
  \<^verbatim>\<open>cursor.execute(f"SELECT {column} FROM tbl_accounts WHERE username = ?", ...)\<close>
  followed by \<^verbatim>\<open>cursor.fetchone()\<close>: the first matching row, if any.
\<close>

definition execute_select_column :: "db \<Rightarrow> string \<Rightarrow> string \<Rightarrow> exn + pyval option" where
  "execute_select_column d column target_username =
     (if users_read_fault d then Inl OperationalError
      else Inr (map_option (row_get column) (find (matches target_username) (tbl_accounts d))))"

text \<open>
  \<^verbatim>\<open>cursor.execute(f"UPDATE tbl_accounts SET {column} = ? WHERE username = ?", ...)\<close>
  inside \<^verbatim>\<open>with self.db_object\<close>, which commits on a normal exit and rolls back otherwise.
  The parameter is bound before the statement runs.
\<close>

definition execute_update_column ::
  "library \<Rightarrow> db \<Rightarrow> string \<Rightarrow> string \<Rightarrow> pyval \<Rightarrow> exn + db" where
  "execute_update_column lib d column target_username new_data =
     (case bind_param new_data of
        Inl e \<Rightarrow> Inl e
      | Inr v \<Rightarrow>
          if users_write_fault d then Inl OperationalError
          else if update_violates lib (tbl_accounts d) column target_username v
            then Inl IntegrityError
          else Inr (d\<lparr>tbl_accounts :=
                         map (\<lambda>r. if matches target_username r then row_set lib column v r else r)
                           (tbl_accounts d),
                       journal := journal d @ [UpdateAccount column target_username new_data]\<rparr>))"

text \<open>
  The INSERT of \<^verbatim>\<open>create_new_user\<close>. AUTOINCREMENT gives the new row an id one above the
  largest id the table has ever held.
\<close>

definition execute_insert_account ::
  "db \<Rightarrow> string \<Rightarrow> string \<Rightarrow> string \<Rightarrow> double \<Rightarrow> double \<Rightarrow> exn + db" where
  "execute_insert_account d username display_name password_hash current_balance savings_balance =
     (if users_write_fault d then Inl OperationalError
      else if PyStr username \<in> set (map acc_username (tbl_accounts d)) then Inl IntegrityError
      else
        (let new_id = fold max (map acc_id (tbl_accounts d)) (accounts_seq d) + 1
         in Inr (d\<lparr>tbl_accounts := tbl_accounts d @
                       [\<lparr>acc_id = new_id,
                         acc_username = PyStr username,
                         acc_display_name = PyStr display_name,
                         acc_password_hash = PyStr password_hash,
                         acc_current_balance = bind_double current_balance,
                         acc_savings_balance = bind_double savings_balance\<rparr>],
                     accounts_seq := new_id,
                     journal := journal d @ [InsertAccount username]\<rparr>)))"

text \<open>
  \<^verbatim>\<open>create_new_user\<close>. The bcrypt hash of \<^verbatim>\<open>crypto.hash_bcrypt\<close> is a parameter. Only
  OperationalError is caught (and logged); any other exception of the INSERT leaves the
  method.
\<close>

definition create_new_user ::
  "(string \<Rightarrow> string) \<Rightarrow> db \<Rightarrow> string \<Rightarrow> string \<Rightarrow> string \<Rightarrow> double \<Rightarrow> double \<Rightarrow> unit outcome" where
  "create_new_user hash_bcrypt d username display_name password current_balance savings_balance =
     (let password_hash = hash_bcrypt password
      in case execute_insert_account d username display_name password_hash
                current_balance savings_balance of
           Inl OperationalError \<Rightarrow> (Inr (), d)
         | Inl e \<Rightarrow> (Inl e, d)
         | Inr d' \<Rightarrow> (Inr (), d'))"

definition get_column_from_username :: "db \<Rightarrow> string \<Rightarrow> string \<Rightarrow> exn + pyval" where
  "get_column_from_username d column target_username =
     (if column \<notin> set ALLOWED_COLUMNS then Inl (ValueError (''Disallowed column: '' @ column))
      else case execute_select_column d column target_username of
             Inl OperationalError \<Rightarrow> Inr PyNone
           | Inl e \<Rightarrow> Inl e
           | Inr (Some v) \<Rightarrow> Inr v
           | Inr None \<Rightarrow> Inr PyNone)"

definition set_column_from_username ::
  "library \<Rightarrow> db \<Rightarrow> string \<Rightarrow> string \<Rightarrow> pyval \<Rightarrow> unit outcome" where
  "set_column_from_username lib d column target_username new_data =
     (if column \<notin> set ALLOWED_COLUMNS then (Inl (ValueError (''Disallowed column: '' @ column)), d)
      else case execute_update_column lib d column target_username new_data of
             Inl OperationalError \<Rightarrow> (Inr (), d)
           | Inl e \<Rightarrow> (Inl e, d)
           | Inr d' \<Rightarrow> (Inr (), d'))"

definition get_current_balance :: "library \<Rightarrow> db \<Rightarrow> string \<Rightarrow> exn + double" where
  "get_current_balance lib d username =
     (case get_column_from_username d ''current_balance'' username of
        Inl e \<Rightarrow> Inl e
      | Inr v \<Rightarrow> py_float lib v)"

definition get_savings_balance :: "library \<Rightarrow> db \<Rightarrow> string \<Rightarrow> exn + double" where
  "get_savings_balance lib d username =
     (case get_column_from_username d ''savings_balance'' username of
        Inl e \<Rightarrow> Inl e
      | Inr v \<Rightarrow> py_float lib v)"

definition get_user_exists :: "db \<Rightarrow> string \<Rightarrow> exn + bool" where
  "get_user_exists d username =
     (case get_column_from_username d ''username'' username of
        Inl e \<Rightarrow> Inl e
      | Inr v \<Rightarrow> Inr (v \<noteq> PyNone))"

definition add_current_balance :: "library \<Rightarrow> db \<Rightarrow> string \<Rightarrow> double \<Rightarrow> unit outcome" where
  "add_current_balance lib d username balance =
     (case get_current_balance lib d username of
        Inl e \<Rightarrow> (Inl e, d)
      | Inr previous_balance \<Rightarrow>
          (let new_balance = fadd previous_balance balance
           in set_column_from_username lib d ''current_balance'' username (PyFloat new_balance)))"

definition add_savings_balance :: "library \<Rightarrow> db \<Rightarrow> string \<Rightarrow> double \<Rightarrow> unit outcome" where
  "add_savings_balance lib d username balance =
     (case get_savings_balance lib d username of
        Inl e \<Rightarrow> (Inl e, d)
      | Inr previous_balance \<Rightarrow>
          (let new_balance = fadd previous_balance balance
           in set_column_from_username lib d ''savings_balance'' username (PyFloat new_balance)))"

subsection \<open>transactions.py\<close>

text \<open>
  The INSERT of \<^verbatim>\<open>log_transaction\<close>: the store assigns the id and, by
  DEFAULT CURRENT_TIMESTAMP, the time of its clock. An amount of nan is bound as NULL,
  which the NOT NULL constraint of the column refuses.
\<close>

definition execute_insert_transaction ::
  "db \<Rightarrow> string \<Rightarrow> string \<Rightarrow> double \<Rightarrow> string \<Rightarrow> exn + db" where
  "execute_insert_transaction d username transaction_type amount account =
     (if transactions_write_fault d then Inl OperationalError
      else if amount = NaN then Inl IntegrityError
      else
        (let new_id = fold max (map txn_id (tbl_transactions d)) (transactions_seq d) + 1
         in Inr (d\<lparr>tbl_transactions := tbl_transactions d @
                       [\<lparr>txn_id = new_id,
                         txn_username = username,
                         txn_type = transaction_type,
                         txn_amount = amount,
                         txn_account = account,
                         txn_timestamp = clock d\<rparr>],
                     transactions_seq := new_id,
                     journal := journal d @
                       [InsertTransaction username transaction_type amount account]\<rparr>)))"

definition log_transaction :: "db \<Rightarrow> string \<Rightarrow> string \<Rightarrow> double \<Rightarrow> string \<Rightarrow> unit outcome" where
  "log_transaction d username transaction_type amount account =
     (case execute_insert_transaction d username transaction_type amount account of
        Inl OperationalError \<Rightarrow> (Inr (), d)
      | Inl e \<Rightarrow> (Inl e, d)
      | Inr d' \<Rightarrow> (Inr (), d'))"

text \<open>
  \<^verbatim>\<open>date('now', '-7 days')\<close> is the text \<^verbatim>\<open>YYYY-MM-DD\<close> of the day seven days before the
  clock's day; it is represented by its day number (days since the epoch).
\<close>

definition date_now_minus_7_days :: "int \<Rightarrow> int" where
  "date_now_minus_7_days now = now div 86400 - 7"

text \<open>
  \<^verbatim>\<open>timestamp >= date(...)\<close> compares the text \<^verbatim>\<open>YYYY-MM-DD HH:MM:SS\<close> with the text
  \<^verbatim>\<open>YYYY-MM-DD\<close>. The order of texts decides on the date part; with equal date parts the
  longer text is the greater. So the comparison holds exactly when the timestamp's day is
  not before the given day.
\<close>

definition timestamp_ge_date :: "int \<Rightarrow> int \<Rightarrow> bool" where
  "timestamp_ge_date ts day = (day \<le> ts div 86400)"

text \<open>
  The SELECT of \<^verbatim>\<open>get_transactions\<close> with \<^verbatim>\<open>fetchall\<close>:
  \<^verbatim>\<open>WHERE username = ? AND timestamp >= date('now', '-7 days') ORDER BY timestamp DESC\<close>.
  Rows of equal timestamp, whose order SQL leaves open, keep the order of their insertion.
\<close>

definition execute_select_transactions :: "db \<Rightarrow> string \<Rightarrow> exn + txn_row list" where
  "execute_select_transactions d username =
     (if transactions_read_fault d then Inl OperationalError
      else Inr (sort_key (\<lambda>r. - txn_timestamp r)
                  (filter (\<lambda>r. txn_username r = username \<and>
                                timestamp_ge_date (txn_timestamp r) (date_now_minus_7_days (clock d)))
                     (tbl_transactions d))))"

definition get_transactions :: "db \<Rightarrow> string \<Rightarrow> exn + txn_row list" where
  "get_transactions d username =
     (case execute_select_transactions d username of
        Inl OperationalError \<Rightarrow> Inr []
      | Inl e \<Rightarrow> Inl e
      | Inr rows \<Rightarrow> Inr rows)"

subsection \<open>actions.py\<close>

definition deposit_into_account ::
  "library \<Rightarrow> db \<Rightarrow> string \<Rightarrow> double \<Rightarrow> string \<Rightarrow> unit outcome" where
  "deposit_into_account lib d username val target_account =
     (if fle val (Finite 0) then (Inl (ValueError ''Deposit amount must be positive''), d)
      else if target_account \<notin> set [''current'', ''savings'']
        then (Inl (ValueError (''target_account must be 'current' or 'savings'' @ [CHR 0x27])), d)
      else if target_account = ''current'' then
        and_then (add_current_balance lib d username val)
          (\<lambda>d1. log_transaction d1 username ''deposit'' val ''current'')
      else if target_account = ''savings'' then
        and_then (add_savings_balance lib d username val)
          (\<lambda>d1. log_transaction d1 username ''deposit'' val ''savings'')
      else (Inr (), d))"

definition withdraw_from_account ::
  "library \<Rightarrow> db \<Rightarrow> string \<Rightarrow> double \<Rightarrow> string \<Rightarrow> unit outcome" where
  "withdraw_from_account lib d username val target_account =
     (if fle val (Finite 0) then (Inl (ValueError ''Withdrawal amount must be positive''), d)
      else if target_account \<notin> set [''current'', ''savings'']
        then (Inl (ValueError (''target_account must be 'current' or 'savings'' @ [CHR 0x27])), d)
      else if target_account = ''current'' then
        and_then (add_current_balance lib d username (fneg val))
          (\<lambda>d1. log_transaction d1 username ''withdraw'' val ''current'')
      else if target_account = ''savings'' then
        and_then (add_savings_balance lib d username (fneg val))
          (\<lambda>d1. log_transaction d1 username ''withdraw'' val ''savings'')
      else (Inr (), d))"

definition transfer_between_accounts ::
  "library \<Rightarrow> db \<Rightarrow> string \<Rightarrow> double \<Rightarrow> string \<Rightarrow> unit outcome" where
  "transfer_between_accounts lib d username val source_account =
     (if fle val (Finite 0) then (Inl (ValueError ''Transfer amount must be positive''), d)
      else if source_account \<notin> set [''current'', ''savings'']
        then (Inl (ValueError (''source_account must be 'current' or 'savings'' @ [CHR 0x27])), d)
      else if source_account = ''current'' then
        and_then (add_current_balance lib d username (fneg val))
          (\<lambda>d1. and_then (add_savings_balance lib d1 username val)
             (\<lambda>d2. log_transaction d2 username ''transfer'' val ''current_to_savings''))
      else if source_account = ''savings'' then
        and_then (add_current_balance lib d username val)
          (\<lambda>d1. and_then (add_savings_balance lib d1 username (fneg val))
             (\<lambda>d2. log_transaction d2 username ''transfer'' val ''savings_to_current''))
      else (Inr (), d))"

subsection \<open>The spec's reading of the seven-day window\<close>

text \<open>
  The specification words the window of the query as \<^verbatim>\<open>timestamp >= now - windowDays\<close> with
  \<^verbatim>\<open>windowDays = 7\<close> and \<^verbatim>\<open>now\<close> an instant. This predicate follows those words; it is
  compared with the query of \<open>execute_select_transactions\<close> below.
\<close>

definition spec_within_last_7_days :: "int \<Rightarrow> int \<Rightarrow> bool" where
  "spec_within_last_7_days now ts = (now - 7 * 86400 \<le> ts)"

subsection \<open>Example stores\<close>

text \<open>
  A library for the examples. None of them stores a text in a numeric column or a number
  in a text column, so what its functions return is never looked at.
\<close>

definition lib0 :: library where
  "lib0 = \<lparr>sqlite_text_to_real = (\<lambda>s. None),
           sqlite_text_to_rowid = (\<lambda>s. None),
           sqlite_number_to_text = (\<lambda>v. []),
           python_float_of_str = (\<lambda>s. Inl (ValueError ''could not convert string to float''))\<rparr>"

text \<open>The scenario of the specification: alice with 100 in current and 50 in savings.\<close>

definition alice_row :: account_row where
  "alice_row =
     \<lparr>acc_id = 1, acc_username = PyStr ''alice'', acc_display_name = PyStr ''Alice'',
      acc_password_hash = PyStr ''$2b$12$digest'', acc_current_balance = PyFloat (Finite 100),
      acc_savings_balance = PyFloat (Finite 50)\<rparr>"

definition db0 :: db where
  "db0 = \<lparr>tbl_accounts = [alice_row], accounts_seq = 1, tbl_transactions = [],
          transactions_seq = 0, clock = 1000, users_read_fault = False,
          users_write_fault = False, transactions_read_fault = False,
          transactions_write_fault = False, journal = []\<rparr>"


text \<open>
  A ledger read at noon of day 8: one record of day 0, one of the first second of day 1
  (seven days and twelve hours old), one of day 8, and one of another user.
\<close>

definition row_day0 :: txn_row where
  "row_day0 = \<lparr>txn_id = 1, txn_username = ''alice'', txn_type = ''deposit'',
               txn_amount = Finite 5, txn_account = ''current'', txn_timestamp = 86399\<rparr>"

definition row_day1 :: txn_row where
  "row_day1 = \<lparr>txn_id = 2, txn_username = ''alice'', txn_type = ''deposit'',
               txn_amount = Finite 25, txn_account = ''current'', txn_timestamp = 86401\<rparr>"

definition row_bob :: txn_row where
  "row_bob = \<lparr>txn_id = 3, txn_username = ''bob'', txn_type = ''withdraw'',
              txn_amount = Finite 1, txn_account = ''savings'', txn_timestamp = 700000\<rparr>"

definition row_day8 :: txn_row where
  "row_day8 = \<lparr>txn_id = 4, txn_username = ''alice'', txn_type = ''withdraw'',
               txn_amount = Finite 200, txn_account = ''current'', txn_timestamp = 691300\<rparr>"

definition db_week :: db where
  "db_week = \<lparr>tbl_accounts = [alice_row], accounts_seq = 1,
              tbl_transactions = [row_day0, row_day1, row_bob, row_day8],
              transactions_seq = 4, clock = 8 * 86400 + 43200, users_read_fault = False,
              users_write_fault = False, transactions_read_fault = False,
              transactions_write_fault = False, journal = []\<rparr>"

section \<open>Properties\<close>

subsection \<open>Floats\<close>

text \<open>The exponent that \<open>float_exponent\<close> computes is the binary exponent.\<close>

lemma float_exponent_bounds:
  assumes "x \<noteq> 0"
  shows "2 powi float_exponent x \<le> \<bar>x\<bar> \<and> \<bar>x\<bar> < 2 powi (float_exponent x + 1)"
proof (cases "1 \<le> \<bar>x\<bar>")
  case True
  let ?n = "\<lfloor>\<bar>x\<bar>\<rfloor>"
  let ?k = "bitlen ?n - 1"
  have n: "0 < ?n" using True by linarith
  have k0: "0 \<le> ?k" using n by (auto simp: bitlen_alt_def)
  from bitlen_bounds [OF n]
  have lo: "2 ^ nat ?k \<le> ?n" and hi: "?n < 2 ^ nat (bitlen ?n)" by simp_all
  have hi': "?n + 1 \<le> 2 ^ nat (?k + 1)" using hi k0 by simp
  have e: "float_exponent x = ?k" using True by (simp add: float_exponent_def)
  have pl: "(2::real) powi ?k = real_of_int (2 ^ nat ?k)"
    using k0 by (simp add: power_int_def)
  have pu: "(2::real) powi (?k + 1) = real_of_int (2 ^ nat (?k + 1))"
    using k0 by (simp add: power_int_def)
  have "real_of_int (2 ^ nat ?k) \<le> real_of_int ?n"
    using lo by (simp only: of_int_le_iff)
  also have "real_of_int ?n \<le> \<bar>x\<bar>" by (rule of_int_floor_le)
  finally have L: "2 powi ?k \<le> \<bar>x\<bar>" by (simp only: pl)
  have "\<bar>x\<bar> < real_of_int (?n + 1)" by linarith
  also have "real_of_int (?n + 1) \<le> real_of_int (2 ^ nat (?k + 1))"
    using hi' by (simp only: of_int_le_iff)
  finally have U: "\<bar>x\<bar> < 2 powi (?k + 1)" by (simp only: pu)
  show ?thesis using L U by (simp only: e)
next
  case False
  then have lt: "\<bar>x\<bar> < 1" by simp
  have pos: "0 < \<bar>x\<bar>" using assms by simp
  let ?y = "1 / \<bar>x\<bar>"
  let ?c = "\<lceil>?y\<rceil>"
  let ?j = "bitlen (?c - 1)"
  have y1: "1 < ?y" using lt pos by simp
  have c: "0 < ?c - 1" using y1 by linarith
  have j1: "1 \<le> ?j" using c by (auto simp: bitlen_alt_def)
  from bitlen_bounds [OF c]
  have lo: "2 ^ nat (?j - 1) \<le> ?c - 1" and hi: "?c - 1 < 2 ^ nat ?j" by simp_all
  have hi': "?c \<le> 2 ^ nat ?j" using hi by simp
  have e: "float_exponent x = - ?j" using False by (simp add: float_exponent_def)
  have "?y \<le> real_of_int ?c" by (rule le_of_int_ceiling)
  also have "real_of_int ?c \<le> real_of_int (2 ^ nat ?j)"
    using hi' by (simp only: of_int_le_iff)
  also have "real_of_int (2 ^ nat ?j) = 2 ^ nat ?j" by simp
  finally have yU: "?y \<le> 2 ^ nat ?j" .
  have "real_of_int (2 ^ nat (?j - 1)) \<le> real_of_int (?c - 1)"
    using lo by (simp only: of_int_le_iff)
  also have "real_of_int (?c - 1) < ?y" by linarith
  finally have "real_of_int (2 ^ nat (?j - 1)) < ?y" .
  moreover have "real_of_int (2 ^ nat (?j - 1)) = 2 ^ nat (?j - 1)" by simp
  ultimately have yL: "2 ^ nat (?j - 1) < ?y" by (simp only:)
  have L: "2 powi (- ?j) \<le> \<bar>x\<bar>"
  proof -
    have "1 / 2 ^ nat ?j \<le> \<bar>x\<bar>"
      using yU pos by (simp add: field_simps)
    moreover have "(2::real) powi (- ?j) = 1 / 2 ^ nat ?j"
      using j1 by (simp add: power_int_def field_simps)
    ultimately show ?thesis by (simp only:)
  qed
  have U: "\<bar>x\<bar> < 2 powi (- ?j + 1)"
  proof -
    have "\<bar>x\<bar> < 1 / 2 ^ nat (?j - 1)"
      using yL pos by (simp add: field_simps)
    moreover have "(2::real) powi (- ?j + 1) = 1 / 2 ^ nat (?j - 1)"
    proof (cases "?j = 1")
      case True then show ?thesis by simp
    next
      case False
      then have "- ?j + 1 < 0" using j1 by simp
      then show ?thesis by (simp add: power_int_def field_simps)
    qed
    ultimately show ?thesis by (simp only:)
  qed
  show ?thesis using L U by (simp only: e)
qed

text \<open>An amount above zero is not nan and passes the guard \<^verbatim>\<open>value <= 0\<close>.\<close>

lemma flt_zero_guard: "flt (Finite 0) val \<Longrightarrow> \<not> fle val (Finite 0)"
  by (cases val) auto

lemma flt_zero_not_nan: "flt (Finite 0) val \<Longrightarrow> val \<noteq> NaN"
  by (cases val) auto

lemma fle_zero_not_nan: "\<not> fle val (Finite 0) \<Longrightarrow> fneg val \<noteq> NaN \<Longrightarrow> val \<noteq> NaN"
  by (cases val) auto

lemma real_affinity_bind_double [simp]: "real_affinity lib (bind_double x) = bind_double x"
  by (cases x) (simp_all add: bind_double_def)

lemma py_float_bind_double:
  "py_float lib (bind_double x) = (if x = NaN then Inl TypeError else Inr x)"
  by (simp add: bind_double_def)

subsection \<open>Reading and writing a balance\<close>

lemma allowed_current [simp]: "''current_balance'' \<in> set ALLOWED_COLUMNS"
  and allowed_savings [simp]: "''savings_balance'' \<in> set ALLOWED_COLUMNS"
  by (simp_all add: ALLOWED_COLUMNS_def)

lemma find_map_pres:
  assumes "\<And>r. P (f r) = P r"
  shows "find P (map f rows) = map_option f (find P rows)"
  using assms by (induction rows) auto

lemma matches_upd_current [simp]: "matches u' (r\<lparr>acc_current_balance := v\<rparr>) = matches u' r"
  and matches_upd_savings [simp]: "matches u' (r\<lparr>acc_savings_balance := v\<rparr>) = matches u' r"
  by (simp_all add: matches_def)

lemma find_upd_current:
  "find (matches u') (map (\<lambda>r. if matches u r then r\<lparr>acc_current_balance := v\<rparr> else r) rows)
   = map_option (\<lambda>r. if matches u r then r\<lparr>acc_current_balance := v\<rparr> else r)
       (find (matches u') rows)"
  by (rule find_map_pres) simp

lemma find_upd_savings:
  "find (matches u') (map (\<lambda>r. if matches u r then r\<lparr>acc_savings_balance := v\<rparr> else r) rows)
   = map_option (\<lambda>r. if matches u r then r\<lparr>acc_savings_balance := v\<rparr> else r)
       (find (matches u') rows)"
  by (rule find_map_pres) simp

lemma find_matches_Some: "find (matches u) rows = Some r \<Longrightarrow> matches u r"
  by (auto simp: find_Some_iff)

lemma filter_others_upd:
  assumes "\<And>r. matches u (f r) = matches u r"
  shows "filter (\<lambda>r. \<not> matches u r) (map (\<lambda>r. if matches u r then f r else r) rows)
         = filter (\<lambda>r. \<not> matches u r) rows"
  using assms by (induction rows) auto

lemma get_column_no_row:
  assumes "column \<in> set ALLOWED_COLUMNS"
    and "PyStr u \<notin> acc_username ` set (tbl_accounts d)"
  shows "get_column_from_username d column u = Inr PyNone"
proof -
  have "find (matches u) (tbl_accounts d) = None"
    using assms(2) by (force simp: find_None_iff matches_def)
  then show ?thesis using assms(1)
    by (simp add: get_column_from_username_def execute_select_column_def)
qed

lemma get_current_balance_Inr:
  "get_current_balance lib d u = Inr b \<longleftrightarrow>
   (\<not> users_read_fault d \<and>
    (\<exists>r. find (matches u) (tbl_accounts d) = Some r \<and>
         py_float lib (acc_current_balance r) = Inr b))"
  by (auto simp: get_current_balance_def get_column_from_username_def
        execute_select_column_def row_get_def split: option.splits)

lemma get_savings_balance_Inr:
  "get_savings_balance lib d u = Inr b \<longleftrightarrow>
   (\<not> users_read_fault d \<and>
    (\<exists>r. find (matches u) (tbl_accounts d) = Some r \<and>
         py_float lib (acc_savings_balance r) = Inr b))"
  by (auto simp: get_savings_balance_def get_column_from_username_def
        execute_select_column_def row_get_def split: option.splits)

lemma get_current_balance_cong:
  "tbl_accounts d1 = tbl_accounts d2 \<Longrightarrow> users_read_fault d1 = users_read_fault d2 \<Longrightarrow>
   get_current_balance lib d1 u = get_current_balance lib d2 u"
  by (simp add: get_current_balance_def get_column_from_username_def execute_select_column_def)

lemma get_savings_balance_cong:
  "tbl_accounts d1 = tbl_accounts d2 \<Longrightarrow> users_read_fault d1 = users_read_fault d2 \<Longrightarrow>
   get_savings_balance lib d1 u = get_savings_balance lib d2 u"
  by (simp add: get_savings_balance_def get_column_from_username_def execute_select_column_def)

lemma current_after_current_update:
  assumes "get_current_balance lib d u = Inr b"
    and "users_read_fault d' = users_read_fault d"
    and "tbl_accounts d' =
           map (\<lambda>r. if matches u r then r\<lparr>acc_current_balance := v\<rparr> else r) (tbl_accounts d)"
  shows "get_current_balance lib d' u = py_float lib v"
proof -
  from assms(1) obtain r
    where nf: "\<not> users_read_fault d" and f: "find (matches u) (tbl_accounts d) = Some r"
    by (auto simp: get_current_balance_Inr)
  have m: "matches u r" using f by (rule find_matches_Some)
  show ?thesis using nf f m assms(2,3)
    by (simp add: get_current_balance_def get_column_from_username_def
          execute_select_column_def find_upd_current row_get_def)
qed

lemma savings_after_savings_update:
  assumes "get_savings_balance lib d u = Inr b"
    and "users_read_fault d' = users_read_fault d"
    and "tbl_accounts d' =
           map (\<lambda>r. if matches u r then r\<lparr>acc_savings_balance := v\<rparr> else r) (tbl_accounts d)"
  shows "get_savings_balance lib d' u = py_float lib v"
proof -
  from assms(1) obtain r
    where nf: "\<not> users_read_fault d" and f: "find (matches u) (tbl_accounts d) = Some r"
    by (auto simp: get_savings_balance_Inr)
  have m: "matches u r" using f by (rule find_matches_Some)
  show ?thesis using nf f m assms(2,3)
    by (simp add: get_savings_balance_def get_column_from_username_def
          execute_select_column_def find_upd_savings row_get_def)
qed

lemma savings_after_current_update:
  assumes "users_read_fault d' = users_read_fault d"
    and "tbl_accounts d' =
           map (\<lambda>r. if matches u r then r\<lparr>acc_current_balance := v\<rparr> else r) (tbl_accounts d)"
  shows "get_savings_balance lib d' u' = get_savings_balance lib d u'"
  using assms
  by (cases "find (matches u') (tbl_accounts d)")
     (simp_all add: get_savings_balance_def get_column_from_username_def
        execute_select_column_def find_upd_current row_get_def)

lemma current_after_savings_update:
  assumes "users_read_fault d' = users_read_fault d"
    and "tbl_accounts d' =
           map (\<lambda>r. if matches u r then r\<lparr>acc_savings_balance := v\<rparr> else r) (tbl_accounts d)"
  shows "get_current_balance lib d' u' = get_current_balance lib d u'"
  using assms
  by (cases "find (matches u') (tbl_accounts d)")
     (simp_all add: get_current_balance_def get_column_from_username_def
        execute_select_column_def find_upd_savings row_get_def)

text \<open>
  What one balance adjustment does when the balance read gives a float and the store
  accepts the write: the column holds the float sum, NULL if that sum is nan.
\<close>

lemma add_current_balance_ok:
  assumes "get_current_balance lib d u = Inr b" and "\<not> users_write_fault d"
  shows "add_current_balance lib d u x =
     (Inr (), d\<lparr>tbl_accounts :=
                  map (\<lambda>r. if matches u r
                           then r\<lparr>acc_current_balance := bind_double (fadd b x)\<rparr> else r)
                    (tbl_accounts d),
                journal := journal d @ [UpdateAccount ''current_balance'' u (PyFloat (fadd b x))]\<rparr>)"
  using assms
  by (simp add: add_current_balance_def set_column_from_username_def
        execute_update_column_def update_violates_def row_set_def Let_def)

lemma add_savings_balance_ok:
  assumes "get_savings_balance lib d u = Inr b" and "\<not> users_write_fault d"
  shows "add_savings_balance lib d u x =
     (Inr (), d\<lparr>tbl_accounts :=
                  map (\<lambda>r. if matches u r
                           then r\<lparr>acc_savings_balance := bind_double (fadd b x)\<rparr> else r)
                    (tbl_accounts d),
                journal := journal d @ [UpdateAccount ''savings_balance'' u (PyFloat (fadd b x))]\<rparr>)"
  using assms
  by (simp add: add_savings_balance_def set_column_from_username_def
        execute_update_column_def update_violates_def row_set_def Let_def)

lemma add_current_balance_effect:
  assumes "get_current_balance lib d u = Inr b" and "\<not> users_write_fault d"
  shows "\<exists>d1. add_current_balance lib d u x = (Inr (), d1) \<and>
     tbl_accounts d1 =
       map (\<lambda>r. if matches u r then r\<lparr>acc_current_balance := bind_double (fadd b x)\<rparr> else r)
         (tbl_accounts d) \<and>
     journal d1 = journal d @ [UpdateAccount ''current_balance'' u (PyFloat (fadd b x))] \<and>
     get_current_balance lib d1 u = py_float lib (bind_double (fadd b x)) \<and>
     get_savings_balance lib d1 u = get_savings_balance lib d u \<and>
     filter (\<lambda>r. \<not> matches u r) (tbl_accounts d1) = filter (\<lambda>r. \<not> matches u r) (tbl_accounts d) \<and>
     tbl_transactions d1 = tbl_transactions d \<and> transactions_seq d1 = transactions_seq d \<and>
     clock d1 = clock d \<and> transactions_write_fault d1 = transactions_write_fault d \<and>
     users_read_fault d1 = users_read_fault d \<and> users_write_fault d1 = users_write_fault d"
proof -
  let ?d1 = "d\<lparr>tbl_accounts :=
                  map (\<lambda>r. if matches u r
                           then r\<lparr>acc_current_balance := bind_double (fadd b x)\<rparr> else r)
                    (tbl_accounts d),
                journal := journal d @ [UpdateAccount ''current_balance'' u (PyFloat (fadd b x))]\<rparr>"
  have a: "add_current_balance lib d u x = (Inr (), ?d1)"
    by (rule add_current_balance_ok [OF assms])
  have c: "get_current_balance lib ?d1 u = py_float lib (bind_double (fadd b x))"
    by (rule current_after_current_update [OF assms(1)]) simp_all
  have s: "get_savings_balance lib ?d1 u = get_savings_balance lib d u"
    by (rule savings_after_current_update [where u = u and v = "bind_double (fadd b x)"]) simp_all
  have o: "filter (\<lambda>r. \<not> matches u r) (tbl_accounts ?d1) = filter (\<lambda>r. \<not> matches u r) (tbl_accounts d)"
    by (simp add: filter_others_upd)
  show ?thesis using a c s o by (intro exI [of _ ?d1]) simp
qed

lemma add_savings_balance_effect:
  assumes "get_savings_balance lib d u = Inr b" and "\<not> users_write_fault d"
  shows "\<exists>d1. add_savings_balance lib d u x = (Inr (), d1) \<and>
     tbl_accounts d1 =
       map (\<lambda>r. if matches u r then r\<lparr>acc_savings_balance := bind_double (fadd b x)\<rparr> else r)
         (tbl_accounts d) \<and>
     journal d1 = journal d @ [UpdateAccount ''savings_balance'' u (PyFloat (fadd b x))] \<and>
     get_savings_balance lib d1 u = py_float lib (bind_double (fadd b x)) \<and>
     get_current_balance lib d1 u = get_current_balance lib d u \<and>
     filter (\<lambda>r. \<not> matches u r) (tbl_accounts d1) = filter (\<lambda>r. \<not> matches u r) (tbl_accounts d) \<and>
     tbl_transactions d1 = tbl_transactions d \<and> transactions_seq d1 = transactions_seq d \<and>
     clock d1 = clock d \<and> transactions_write_fault d1 = transactions_write_fault d \<and>
     users_read_fault d1 = users_read_fault d \<and> users_write_fault d1 = users_write_fault d"
proof -
  let ?d1 = "d\<lparr>tbl_accounts :=
                  map (\<lambda>r. if matches u r
                           then r\<lparr>acc_savings_balance := bind_double (fadd b x)\<rparr> else r)
                    (tbl_accounts d),
                journal := journal d @ [UpdateAccount ''savings_balance'' u (PyFloat (fadd b x))]\<rparr>"
  have a: "add_savings_balance lib d u x = (Inr (), ?d1)"
    by (rule add_savings_balance_ok [OF assms])
  have c: "get_savings_balance lib ?d1 u = py_float lib (bind_double (fadd b x))"
    by (rule savings_after_savings_update [OF assms(1)]) simp_all
  have s: "get_current_balance lib ?d1 u = get_current_balance lib d u"
    by (rule current_after_savings_update [where u = u and v = "bind_double (fadd b x)"]) simp_all
  have o: "filter (\<lambda>r. \<not> matches u r) (tbl_accounts ?d1) = filter (\<lambda>r. \<not> matches u r) (tbl_accounts d)"
    by (simp add: filter_others_upd)
  show ?thesis using a c s o by (intro exI [of _ ?d1]) simp
qed

text \<open>
  What one ledger append does when the ledger store accepts the write and the amount is
  not nan.
\<close>

lemma log_transaction_effect:
  assumes "\<not> transactions_write_fault d" and "a \<noteq> NaN"
  shows "\<exists>d1 r. log_transaction d u t a acc = (Inr (), d1) \<and>
     tbl_transactions d1 = tbl_transactions d @ [r] \<and>
     txn_username r = u \<and> txn_type r = t \<and> txn_amount r = a \<and> txn_account r = acc \<and>
     txn_timestamp r = clock d \<and>
     journal d1 = journal d @ [InsertTransaction u t a acc] \<and>
     tbl_accounts d1 = tbl_accounts d \<and> users_read_fault d1 = users_read_fault d \<and>
     users_write_fault d1 = users_write_fault d \<and>
     transactions_write_fault d1 = transactions_write_fault d \<and> clock d1 = clock d"
proof -
  let ?n = "fold max (map txn_id (tbl_transactions d)) (transactions_seq d) + 1"
  let ?r = "\<lparr>txn_id = ?n, txn_username = u, txn_type = t, txn_amount = a, txn_account = acc,
             txn_timestamp = clock d\<rparr>"
  let ?d1 = "d\<lparr>tbl_transactions := tbl_transactions d @ [?r], transactions_seq := ?n,
                journal := journal d @ [InsertTransaction u t a acc]\<rparr>"
  have "log_transaction d u t a acc = (Inr (), ?d1)"
    using assms by (simp add: log_transaction_def execute_insert_transaction_def Let_def)
  then show ?thesis by (intro exI [of _ ?d1] exI [of _ ?r]) simp
qed

lemma current_then_log:
  assumes "get_current_balance lib d u = Inr b" and "\<not> transactions_write_fault d"
    and "\<not> users_write_fault d" and "a \<noteq> NaN"
  shows "\<exists>d' r. and_then (add_current_balance lib d u x) (\<lambda>d1. log_transaction d1 u t a acc)
                  = (Inr (), d') \<and>
     get_current_balance lib d' u = py_float lib (bind_double (fadd b x)) \<and>
     get_savings_balance lib d' u = get_savings_balance lib d u \<and>
     filter (\<lambda>r. \<not> matches u r) (tbl_accounts d') = filter (\<lambda>r. \<not> matches u r) (tbl_accounts d) \<and>
     tbl_transactions d' = tbl_transactions d @ [r] \<and>
     txn_username r = u \<and> txn_type r = t \<and> txn_amount r = a \<and> txn_account r = acc \<and>
     txn_timestamp r = clock d \<and>
     tbl_accounts d' =
       map (\<lambda>r. if matches u r then r\<lparr>acc_current_balance := bind_double (fadd b x)\<rparr> else r)
         (tbl_accounts d) \<and>
     users_read_fault d' = users_read_fault d \<and> users_write_fault d' = users_write_fault d \<and>
     transactions_write_fault d' = transactions_write_fault d \<and> clock d' = clock d \<and>
     journal d' = journal d @ [UpdateAccount ''current_balance'' u (PyFloat (fadd b x)),
                               InsertTransaction u t a acc]"
proof -
  from add_current_balance_effect [OF assms(1,3), of x] obtain d1 where
    a: "add_current_balance lib d u x = (Inr (), d1)"
    and acc1: "tbl_accounts d1 =
       map (\<lambda>r. if matches u r then r\<lparr>acc_current_balance := bind_double (fadd b x)\<rparr> else r)
         (tbl_accounts d)"
    and j1: "journal d1 = journal d @ [UpdateAccount ''current_balance'' u (PyFloat (fadd b x))]"
    and c1: "get_current_balance lib d1 u = py_float lib (bind_double (fadd b x))"
    and s1: "get_savings_balance lib d1 u = get_savings_balance lib d u"
    and o1: "filter (\<lambda>r. \<not> matches u r) (tbl_accounts d1) = filter (\<lambda>r. \<not> matches u r) (tbl_accounts d)"
    and t1: "tbl_transactions d1 = tbl_transactions d" "clock d1 = clock d"
    and f1: "transactions_write_fault d1 = transactions_write_fault d"
      "users_read_fault d1 = users_read_fault d" "users_write_fault d1 = users_write_fault d"
    by blast
  have nf: "\<not> transactions_write_fault d1" using assms(2) f1 by simp
  from log_transaction_effect [OF nf assms(4), of u t acc] obtain d2 r where
    l: "log_transaction d1 u t a acc = (Inr (), d2)"
    and t2: "tbl_transactions d2 = tbl_transactions d1 @ [r]"
    and r: "txn_username r = u" "txn_type r = t" "txn_amount r = a"
       "txn_account r = acc" "txn_timestamp r = clock d1"
    and j2: "journal d2 = journal d1 @ [InsertTransaction u t a acc]"
    and acc2: "tbl_accounts d2 = tbl_accounts d1" "users_read_fault d2 = users_read_fault d1"
    and f2: "transactions_write_fault d2 = transactions_write_fault d1" "clock d2 = clock d1"
      "users_write_fault d2 = users_write_fault d1"
    by blast
  have e: "and_then (add_current_balance lib d u x) (\<lambda>d1. log_transaction d1 u t a acc)
             = (Inr (), d2)"
    by (simp add: and_then_def a l)
  have c2: "get_current_balance lib d2 u = py_float lib (bind_double (fadd b x))"
    using c1 get_current_balance_cong [OF acc2] by simp
  have s2: "get_savings_balance lib d2 u = get_savings_balance lib d u"
    using s1 get_savings_balance_cong [OF acc2] by simp
  show ?thesis
    using e c2 s2 o1 t1 t2 r acc1 acc2 j1 j2 f1 f2 by (intro exI [of _ d2] exI [of _ r]) simp
qed

lemma savings_then_log:
  assumes "get_savings_balance lib d u = Inr b" and "\<not> transactions_write_fault d"
    and "\<not> users_write_fault d" and "a \<noteq> NaN"
  shows "\<exists>d' r. and_then (add_savings_balance lib d u x) (\<lambda>d1. log_transaction d1 u t a acc)
                  = (Inr (), d') \<and>
     get_savings_balance lib d' u = py_float lib (bind_double (fadd b x)) \<and>
     get_current_balance lib d' u = get_current_balance lib d u \<and>
     filter (\<lambda>r. \<not> matches u r) (tbl_accounts d') = filter (\<lambda>r. \<not> matches u r) (tbl_accounts d) \<and>
     tbl_transactions d' = tbl_transactions d @ [r] \<and>
     txn_username r = u \<and> txn_type r = t \<and> txn_amount r = a \<and> txn_account r = acc \<and>
     txn_timestamp r = clock d \<and>
     tbl_accounts d' =
       map (\<lambda>r. if matches u r then r\<lparr>acc_savings_balance := bind_double (fadd b x)\<rparr> else r)
         (tbl_accounts d) \<and>
     users_read_fault d' = users_read_fault d \<and> users_write_fault d' = users_write_fault d \<and>
     transactions_write_fault d' = transactions_write_fault d \<and> clock d' = clock d \<and>
     journal d' = journal d @ [UpdateAccount ''savings_balance'' u (PyFloat (fadd b x)),
                               InsertTransaction u t a acc]"
proof -
  from add_savings_balance_effect [OF assms(1,3), of x] obtain d1 where
    a: "add_savings_balance lib d u x = (Inr (), d1)"
    and acc1: "tbl_accounts d1 =
       map (\<lambda>r. if matches u r then r\<lparr>acc_savings_balance := bind_double (fadd b x)\<rparr> else r)
         (tbl_accounts d)"
    and j1: "journal d1 = journal d @ [UpdateAccount ''savings_balance'' u (PyFloat (fadd b x))]"
    and c1: "get_savings_balance lib d1 u = py_float lib (bind_double (fadd b x))"
    and s1: "get_current_balance lib d1 u = get_current_balance lib d u"
    and o1: "filter (\<lambda>r. \<not> matches u r) (tbl_accounts d1) = filter (\<lambda>r. \<not> matches u r) (tbl_accounts d)"
    and t1: "tbl_transactions d1 = tbl_transactions d" "clock d1 = clock d"
    and f1: "transactions_write_fault d1 = transactions_write_fault d"
      "users_read_fault d1 = users_read_fault d" "users_write_fault d1 = users_write_fault d"
    by blast
  have nf: "\<not> transactions_write_fault d1" using assms(2) f1 by simp
  from log_transaction_effect [OF nf assms(4), of u t acc] obtain d2 r where
    l: "log_transaction d1 u t a acc = (Inr (), d2)"
    and t2: "tbl_transactions d2 = tbl_transactions d1 @ [r]"
    and r: "txn_username r = u" "txn_type r = t" "txn_amount r = a"
       "txn_account r = acc" "txn_timestamp r = clock d1"
    and j2: "journal d2 = journal d1 @ [InsertTransaction u t a acc]"
    and acc2: "tbl_accounts d2 = tbl_accounts d1" "users_read_fault d2 = users_read_fault d1"
    and f2: "transactions_write_fault d2 = transactions_write_fault d1" "clock d2 = clock d1"
      "users_write_fault d2 = users_write_fault d1"
    by blast
  have e: "and_then (add_savings_balance lib d u x) (\<lambda>d1. log_transaction d1 u t a acc)
             = (Inr (), d2)"
    by (simp add: and_then_def a l)
  have c2: "get_savings_balance lib d2 u = py_float lib (bind_double (fadd b x))"
    using c1 get_savings_balance_cong [OF acc2] by simp
  have s2: "get_current_balance lib d2 u = get_current_balance lib d u"
    using s1 get_current_balance_cong [OF acc2] by simp
  show ?thesis
    using e c2 s2 o1 t1 t2 r acc1 acc2 j1 j2 f1 f2 by (intro exI [of _ d2] exI [of _ r]) simp
qed


lemma deposit_savings_unfold:
  "\<not> fle val (Finite 0) \<Longrightarrow> deposit_into_account lib d u val ''savings'' =
     and_then (add_savings_balance lib d u val)
       (\<lambda>d1. log_transaction d1 u ''deposit'' val ''savings'')"
  by (simp add: deposit_into_account_def)

lemma withdraw_current_unfold:
  "\<not> fle val (Finite 0) \<Longrightarrow> withdraw_from_account lib d u val ''current'' =
     and_then (add_current_balance lib d u (fneg val))
       (\<lambda>d1. log_transaction d1 u ''withdraw'' val ''current'')"
  by (simp add: withdraw_from_account_def)


text \<open>
  A user that \<open>create_new_user\<close> has registered with balances that are not nan has two
  balances that read as floats: the accounts the properties below speak of are those the
  program itself creates.
\<close>

lemma find_append_new:
  assumes "\<forall>r \<in> set rows. \<not> P r" and "P x"
  shows "find P (rows @ [x]) = Some x"
  using assms by (induction rows) auto

lemma create_new_user_balances:
  assumes "\<not> users_read_fault d" and "\<not> users_write_fault d"
    and "PyStr u \<notin> acc_username ` set (tbl_accounts d)"
    and "c \<noteq> NaN" and "s \<noteq> NaN"
  shows "\<exists>d'. create_new_user h d u dn pw c s = (Inr (), d') \<and>
           get_current_balance lib d' u = Inr c \<and> get_savings_balance lib d' u = Inr s"
proof -
  let ?row = "\<lparr>acc_id = fold max (map acc_id (tbl_accounts d)) (accounts_seq d) + 1,
               acc_username = PyStr u, acc_display_name = PyStr dn,
               acc_password_hash = PyStr (h pw), acc_current_balance = bind_double c,
               acc_savings_balance = bind_double s\<rparr>"
  let ?d' = "d\<lparr>tbl_accounts := tbl_accounts d @ [?row],
               accounts_seq := fold max (map acc_id (tbl_accounts d)) (accounts_seq d) + 1,
               journal := journal d @ [InsertAccount u]\<rparr>"
  have cr: "create_new_user h d u dn pw c s = (Inr (), ?d')"
    using assms(2,3) by (simp add: create_new_user_def execute_insert_account_def Let_def)
  have nm: "\<forall>r \<in> set (tbl_accounts d). \<not> matches u r"
    using assms(3) by (force simp: matches_def)
  have f: "find (matches u) (tbl_accounts d @ [?row]) = Some ?row"
    by (rule find_append_new [OF nm]) (simp add: matches_def)
  have gc: "get_current_balance lib ?d' u = Inr c"
    using assms(1,4) f by (simp add: get_current_balance_def get_column_from_username_def
        execute_select_column_def row_get_def py_float_bind_double)
  have gs: "get_savings_balance lib ?d' u = Inr s"
    using assms(1,5) f by (simp add: get_savings_balance_def get_column_from_username_def
        execute_select_column_def row_get_def py_float_bind_double)
  show ?thesis using cr gc gs by blast
qed

text \<open>The example stores, read back through the program's own getters, and their sums.\<close>

lemma alice_current [simp]: "get_current_balance lib db0 ''alice'' = Inr (Finite 100)"
  by (simp add: db0_def alice_row_def get_current_balance_def get_column_from_username_def
        execute_select_column_def matches_def row_get_def)

lemma alice_savings [simp]: "get_savings_balance lib db0 ''alice'' = Inr (Finite 50)"
  by (simp add: db0_def alice_row_def get_savings_balance_def get_column_from_username_def
        execute_select_column_def matches_def row_get_def)



lemma db0_transactions_writable [simp]: "\<not> transactions_write_fault db0"
  by (simp add: db0_def)

lemma db0_users_writable [simp]: "\<not> users_write_fault db0"
  by (simp add: db0_def)


lemma db0_ledger_empty [simp]: "tbl_transactions db0 = []"
  by (simp add: db0_def)

lemma db0_journal_empty [simp]: "journal db0 = []"
  by (simp add: db0_def)

lemma db0_alice_present [simp]: "PyStr ''alice'' \<in> acc_username ` set (tbl_accounts db0)"
  by (simp add: db0_def alice_row_def)

lemma db0_bob_absent [simp]: "PyStr ''bob'' \<notin> acc_username ` set (tbl_accounts db0)"
  by (simp add: db0_def alice_row_def)

lemma round_125 [simp]: "round_double 125 = Finite 125"
  by code_simp

lemma round_75 [simp]: "round_double 75 = Finite 75"
  by code_simp

lemma round_25 [simp]: "round_double 25 = Finite 25"
  by code_simp

lemma round_49 [simp]: "round_double 49 = Finite 49"
  by code_simp

lemma round_m100 [simp]: "round_double (- 100) = Finite (- 100)"
  by code_simp

lemma round_m150 [simp]: "round_double (- 150) = Finite (- 150)"
  by code_simp

text \<open>
  At \<^verbatim>\<open>1e16\<close> the exact sums \<^verbatim>\<open>1e16 + 1\<close> and \<^verbatim>\<open>1e16 - 1\<close> lie halfway between two floats;
  both round to \<^verbatim>\<open>1e16\<close>, whose significand is even.
\<close>

lemma round_big_plus_1 [simp]: "round_double 10000000000000001 = Finite 10000000000000000"
  by code_simp

lemma round_big_minus_1 [simp]: "round_double 9999999999999999 = Finite 10000000000000000"
  by code_simp

subsection \<open>Deposit\<close>




subsection \<open>Withdraw\<close>




subsection \<open>Transfer\<close>

lemma transfer_current_unfold:
  "\<not> fle val (Finite 0) \<Longrightarrow> transfer_between_accounts lib d u val ''current'' =
     and_then (add_current_balance lib d u (fneg val))
       (\<lambda>d1. and_then (add_savings_balance lib d1 u val)
          (\<lambda>d2. log_transaction d2 u ''transfer'' val ''current_to_savings''))"
  by (simp add: transfer_between_accounts_def)


lemma current_savings_then_log:
  assumes "get_current_balance lib d u = Inr cb" and "get_savings_balance lib d u = Inr sb"
    and "\<not> transactions_write_fault d" and "\<not> users_write_fault d" and "a \<noteq> NaN"
  shows "\<exists>d' r. and_then (add_current_balance lib d u x)
                  (\<lambda>d1. and_then (add_savings_balance lib d1 u y)
                     (\<lambda>d2. log_transaction d2 u t a acc)) = (Inr (), d') \<and>
     get_current_balance lib d' u = py_float lib (bind_double (fadd cb x)) \<and>
     get_savings_balance lib d' u = py_float lib (bind_double (fadd sb y)) \<and>
     tbl_accounts d' =
       map (\<lambda>r. if matches u r then r\<lparr>acc_savings_balance := bind_double (fadd sb y)\<rparr> else r)
         (map (\<lambda>r. if matches u r then r\<lparr>acc_current_balance := bind_double (fadd cb x)\<rparr> else r)
            (tbl_accounts d)) \<and>
     tbl_transactions d' = tbl_transactions d @ [r] \<and>
     txn_username r = u \<and> txn_type r = t \<and> txn_amount r = a \<and> txn_account r = acc \<and>
     txn_timestamp r = clock d \<and>
     journal d' = journal d @ [UpdateAccount ''current_balance'' u (PyFloat (fadd cb x)),
                               UpdateAccount ''savings_balance'' u (PyFloat (fadd sb y)),
                               InsertTransaction u t a acc]"
proof -
  from add_current_balance_effect [OF assms(1,4), of x] obtain d1 where
    a: "add_current_balance lib d u x = (Inr (), d1)"
    and j1: "journal d1 = journal d @ [UpdateAccount ''current_balance'' u (PyFloat (fadd cb x))]"
    and acc1: "tbl_accounts d1 =
       map (\<lambda>r. if matches u r then r\<lparr>acc_current_balance := bind_double (fadd cb x)\<rparr> else r)
         (tbl_accounts d)"
    and c1: "get_current_balance lib d1 u = py_float lib (bind_double (fadd cb x))"
    and s1: "get_savings_balance lib d1 u = get_savings_balance lib d u"
    and t1: "tbl_transactions d1 = tbl_transactions d" "clock d1 = clock d"
    and f1: "transactions_write_fault d1 = transactions_write_fault d"
    and w1: "users_write_fault d1 = users_write_fault d"
    by blast
  have g1: "get_savings_balance lib d1 u = Inr sb" using s1 assms(2) by simp
  have nf1: "\<not> transactions_write_fault d1" using f1 assms(3) by simp
  have nw1: "\<not> users_write_fault d1" using w1 assms(4) by simp
  from savings_then_log [OF g1 nf1 nw1 assms(5), where x = y and t = t and acc = acc]
  obtain d2 r where
    b: "and_then (add_savings_balance lib d1 u y) (\<lambda>d2. log_transaction d2 u t a acc)
          = (Inr (), d2)"
    and s2: "get_savings_balance lib d2 u = py_float lib (bind_double (fadd sb y))"
    and c2: "get_current_balance lib d2 u = get_current_balance lib d1 u"
    and acc2: "tbl_accounts d2 =
       map (\<lambda>r. if matches u r then r\<lparr>acc_savings_balance := bind_double (fadd sb y)\<rparr> else r)
         (tbl_accounts d1)"
    and t2: "tbl_transactions d2 = tbl_transactions d1 @ [r]"
    and r: "txn_username r = u" "txn_type r = t" "txn_amount r = a" "txn_account r = acc"
      "txn_timestamp r = clock d1"
    and j2: "journal d2 = journal d1 @ [UpdateAccount ''savings_balance'' u (PyFloat (fadd sb y)),
                               InsertTransaction u t a acc]"
    by blast
  have e: "and_then (add_current_balance lib d u x)
                  (\<lambda>d1. and_then (add_savings_balance lib d1 u y)
                     (\<lambda>d2. log_transaction d2 u t a acc)) = (Inr (), d2)"
    using b by (simp add: and_then_def a)
  show ?thesis
    using e c1 c2 s2 acc1 acc2 t1 t2 r j1 j2 by (intro exI [of _ d2] exI [of _ r]) simp
qed

text \<open>
  Claim C3. For every amount greater than zero and every user whose two balances read as
  floats, with both stores accepting writes, \<open>transfer_between_accounts\<close> from
  \<^verbatim>\<open>current\<close> leaves the same account table, and so the same pair of balances (the float
  sums of current and the negated amount, of savings and the amount), as
  \<open>withdraw_from_account\<close> from \<^verbatim>\<open>current\<close> followed by \<open>deposit_into_account\<close> into
  \<^verbatim>\<open>savings\<close>. The transfer appends exactly one ledger record, of kind \<^verbatim>\<open>transfer\<close> and
  labelled \<^verbatim>\<open>current_to_savings\<close>; the two calls append two records, a withdraw and a
  deposit.
\<close>

theorem transfer_current_as_withdraw_then_deposit:
  assumes "flt (Finite 0) val" and "get_current_balance lib d u = Inr cb"
    and "get_savings_balance lib d u = Inr sb"
    and "\<not> transactions_write_fault d" and "\<not> users_write_fault d"
  shows "\<exists>dT dW r r1 r2.
     transfer_between_accounts lib d u val ''current'' = (Inr (), dT) \<and>
     and_then (withdraw_from_account lib d u val ''current'')
       (\<lambda>d1. deposit_into_account lib d1 u val ''savings'') = (Inr (), dW) \<and>
     tbl_accounts dT = tbl_accounts dW \<and>
     get_current_balance lib dT u = py_float lib (bind_double (fadd cb (fneg val))) \<and>
     get_savings_balance lib dT u = py_float lib (bind_double (fadd sb val)) \<and>
     get_current_balance lib dW u = get_current_balance lib dT u \<and>
     get_savings_balance lib dW u = get_savings_balance lib dT u \<and>
     tbl_transactions dT = tbl_transactions d @ [r] \<and>
     txn_username r = u \<and> txn_type r = ''transfer'' \<and> txn_amount r = val \<and>
     txn_account r = ''current_to_savings'' \<and>
     tbl_transactions dW = tbl_transactions d @ [r1, r2] \<and>
     txn_type r1 = ''withdraw'' \<and> txn_account r1 = ''current'' \<and>
     txn_type r2 = ''deposit'' \<and> txn_account r2 = ''savings''"
proof -
  have g0: "\<not> fle val (Finite 0)" using assms(1) by (rule flt_zero_guard)
  have nn: "val \<noteq> NaN" using assms(1) by (rule flt_zero_not_nan)
  from current_savings_then_log [OF assms(2,3,4,5) nn, where x = "fneg val" and y = val
      and t = "''transfer''" and acc = "''current_to_savings''"]
  obtain dT r where
    T: "transfer_between_accounts lib d u val ''current'' = (Inr (), dT)"
    and cT: "get_current_balance lib dT u = py_float lib (bind_double (fadd cb (fneg val)))"
    and sT: "get_savings_balance lib dT u = py_float lib (bind_double (fadd sb val))"
    and accT: "tbl_accounts dT =
       map (\<lambda>r. if matches u r then r\<lparr>acc_savings_balance := bind_double (fadd sb val)\<rparr> else r)
         (map (\<lambda>r. if matches u r
                  then r\<lparr>acc_current_balance := bind_double (fadd cb (fneg val))\<rparr> else r)
            (tbl_accounts d))"
    and tT: "tbl_transactions dT = tbl_transactions d @ [r]"
    and r: "txn_username r = u" "txn_type r = ''transfer''" "txn_amount r = val"
      "txn_account r = ''current_to_savings''"
    unfolding transfer_current_unfold [OF g0] by auto
  from current_then_log [OF assms(2,4,5) nn, where x = "fneg val" and t = "''withdraw''"
      and acc = "''current''"]
  obtain d1 r1 where
    W: "withdraw_from_account lib d u val ''current'' = (Inr (), d1)"
    and c1: "get_current_balance lib d1 u = py_float lib (bind_double (fadd cb (fneg val)))"
    and s1: "get_savings_balance lib d1 u = get_savings_balance lib d u"
    and acc1: "tbl_accounts d1 =
       map (\<lambda>r. if matches u r
                then r\<lparr>acc_current_balance := bind_double (fadd cb (fneg val))\<rparr> else r)
         (tbl_accounts d)"
    and t1: "tbl_transactions d1 = tbl_transactions d @ [r1]"
    and r1: "txn_type r1 = ''withdraw''" "txn_account r1 = ''current''"
    and f1: "transactions_write_fault d1 = transactions_write_fault d"
    and w1: "users_write_fault d1 = users_write_fault d"
    unfolding withdraw_current_unfold [OF g0] by auto
  have g1: "get_savings_balance lib d1 u = Inr sb" using s1 assms(3) by simp
  have nf1: "\<not> transactions_write_fault d1" using f1 assms(4) by simp
  have nw1: "\<not> users_write_fault d1" using w1 assms(5) by simp
  from savings_then_log [OF g1 nf1 nw1 nn, where x = val and t = "''deposit''"
      and acc = "''savings''"]
  obtain dW r2 where
    D: "deposit_into_account lib d1 u val ''savings'' = (Inr (), dW)"
    and sW: "get_savings_balance lib dW u = py_float lib (bind_double (fadd sb val))"
    and cW: "get_current_balance lib dW u = get_current_balance lib d1 u"
    and accW: "tbl_accounts dW =
       map (\<lambda>r. if matches u r then r\<lparr>acc_savings_balance := bind_double (fadd sb val)\<rparr> else r)
         (tbl_accounts d1)"
    and tW: "tbl_transactions dW = tbl_transactions d1 @ [r2]"
    and r2: "txn_type r2 = ''deposit''" "txn_account r2 = ''savings''"
    unfolding deposit_savings_unfold [OF g0] by auto
  have WD: "and_then (withdraw_from_account lib d u val ''current'')
       (\<lambda>d1. deposit_into_account lib d1 u val ''savings'') = (Inr (), dW)"
    by (simp add: and_then_def W D)
  have eq: "tbl_accounts dT = tbl_accounts dW" by (simp add: accT accW acc1)
  show ?thesis
    using T WD eq cT sT c1 cW sW tT r t1 tW r1 r2
    by (intro exI [of _ dT] exI [of _ dW] exI [of _ r] exI [of _ r1] exI [of _ r2]) simp
qed

theorem transfer_current_as_withdraw_then_deposit_witness:
  "flt (Finite 0) (Finite 25) \<and> get_current_balance lib0 db0 ''alice'' = Inr (Finite 100) \<and>
   get_savings_balance lib0 db0 ''alice'' = Inr (Finite 50) \<and>
   \<not> transactions_write_fault db0 \<and> \<not> users_write_fault db0 \<and>
   (\<exists>dT dW r r1 r2.
     transfer_between_accounts lib0 db0 ''alice'' (Finite 25) ''current'' = (Inr (), dT) \<and>
     and_then (withdraw_from_account lib0 db0 ''alice'' (Finite 25) ''current'')
       (\<lambda>d1. deposit_into_account lib0 d1 ''alice'' (Finite 25) ''savings'') = (Inr (), dW) \<and>
     tbl_accounts dT = tbl_accounts dW \<and>
     get_current_balance lib0 dT ''alice'' = Inr (Finite 75) \<and>
     get_savings_balance lib0 dT ''alice'' = Inr (Finite 75) \<and>
     get_current_balance lib0 dW ''alice'' = Inr (Finite 75) \<and>
     get_savings_balance lib0 dW ''alice'' = Inr (Finite 75) \<and>
     tbl_transactions dT = [r] \<and> txn_account r = ''current_to_savings'' \<and>
     tbl_transactions dW = [r1, r2])"
proof -
  have p: "flt (Finite 0) (Finite 25)" by simp
  from transfer_current_as_withdraw_then_deposit
         [OF p alice_current alice_savings db0_transactions_writable db0_users_writable,
          of lib0]
  obtain dT dW r r1 r2 where
    "transfer_between_accounts lib0 db0 ''alice'' (Finite 25) ''current'' = (Inr (), dT)"
    "and_then (withdraw_from_account lib0 db0 ''alice'' (Finite 25) ''current'')
       (\<lambda>d1. deposit_into_account lib0 d1 ''alice'' (Finite 25) ''savings'') = (Inr (), dW)"
    "tbl_accounts dT = tbl_accounts dW"
    "get_current_balance lib0 dT ''alice'' = Inr (Finite 75)"
    "get_savings_balance lib0 dT ''alice'' = Inr (Finite 75)"
    "get_current_balance lib0 dW ''alice'' = Inr (Finite 75)"
    "get_savings_balance lib0 dW ''alice'' = Inr (Finite 75)"
    "tbl_transactions dT = [r]" "txn_account r = ''current_to_savings''"
    "tbl_transactions dW = [r1, r2]"
    by (auto simp: bind_double_def)
  then show ?thesis by (simp add: p)
qed







subsection \<open>Rejected calls\<close>

text \<open>
  Claim C5. For every amount that is zero or negative and any selector at all, deposit,
  withdraw and transfer each raise the ValueError that says the amount must be positive
  (the spec's InvalidAmount), and the database they leave is the one they were given: no
  balance has changed and the ledger has no new record.
\<close>

theorem invalid_amount_rejected:
  assumes "fle val (Finite 0)"
  shows "deposit_into_account lib d u val sel =
           (Inl (ValueError ''Deposit amount must be positive''), d) \<and>
         withdraw_from_account lib d u val sel =
           (Inl (ValueError ''Withdrawal amount must be positive''), d) \<and>
         transfer_between_accounts lib d u val sel =
           (Inl (ValueError ''Transfer amount must be positive''), d)"
  using assms
  by (simp add: deposit_into_account_def withdraw_from_account_def transfer_between_accounts_def)

theorem invalid_amount_rejected_witness:
  "fle (Finite 0) (Finite 0) \<and> fle (Finite (- 1)) (Finite 0) \<and>
   deposit_into_account lib0 db0 ''alice'' (Finite 0) ''current'' =
     (Inl (ValueError ''Deposit amount must be positive''), db0) \<and>
   deposit_into_account lib0 db0 ''alice'' (Finite (- 1)) ''current'' =
     (Inl (ValueError ''Deposit amount must be positive''), db0) \<and>
   withdraw_from_account lib0 db0 ''alice'' (Finite (- 1)) ''crypto'' =
     (Inl (ValueError ''Withdrawal amount must be positive''), db0) \<and>
   transfer_between_accounts lib0 db0 ''alice'' (Finite 0) ''savings'' =
     (Inl (ValueError ''Transfer amount must be positive''), db0)"
  using invalid_amount_rejected [of "Finite 0" lib0 db0 "''alice''" "''current''"]
        invalid_amount_rejected [of "Finite (- 1)" lib0 db0 "''alice''" "''current''"]
        invalid_amount_rejected [of "Finite (- 1)" lib0 db0 "''alice''" "''crypto''"]
        invalid_amount_rejected [of "Finite 0" lib0 db0 "''alice''" "''savings''"]
  by simp

text \<open>
  Claim C6. For every amount greater than zero and every selector other than \<^verbatim>\<open>current\<close>
  and \<^verbatim>\<open>savings\<close>, deposit, withdraw and transfer each raise the ValueError that names the
  two allowed accounts (the spec's InvalidAccountSelector), and the database they leave is
  the one they were given.
\<close>

theorem invalid_selector_rejected:
  assumes "flt (Finite 0) val" and "sel \<noteq> ''current''" and "sel \<noteq> ''savings''"
  shows "deposit_into_account lib d u val sel =
           (Inl (ValueError (''target_account must be 'current' or 'savings'' @ [CHR 0x27])), d) \<and>
         withdraw_from_account lib d u val sel =
           (Inl (ValueError (''target_account must be 'current' or 'savings'' @ [CHR 0x27])), d) \<and>
         transfer_between_accounts lib d u val sel =
           (Inl (ValueError (''source_account must be 'current' or 'savings'' @ [CHR 0x27])), d)"
  using assms flt_zero_guard [OF assms(1)]
  by (simp add: deposit_into_account_def withdraw_from_account_def transfer_between_accounts_def)

theorem invalid_selector_rejected_witness:
  "flt (Finite 0) (Finite 10) \<and> ''crypto'' \<noteq> ''current'' \<and> ''crypto'' \<noteq> ''savings'' \<and>
   deposit_into_account lib0 db0 ''alice'' (Finite 10) ''crypto'' =
     (Inl (ValueError (''target_account must be 'current' or 'savings'' @ [CHR 0x27])), db0) \<and>
   withdraw_from_account lib0 db0 ''alice'' (Finite 10) ''crypto'' =
     (Inl (ValueError (''target_account must be 'current' or 'savings'' @ [CHR 0x27])), db0) \<and>
   transfer_between_accounts lib0 db0 ''alice'' (Finite 10) ''crypto'' =
     (Inl (ValueError (''source_account must be 'current' or 'savings'' @ [CHR 0x27])), db0)"
  using invalid_selector_rejected [of "Finite 10" "''crypto''" lib0 db0 "''alice''"]
  by simp

text \<open>
  Claim C10. For an amount greater than zero, a valid selector and a username that no row
  of the account table carries, deposit, withdraw and transfer each raise TypeError: the
  balance read returns None and \<^verbatim>\<open>float(None)\<close> raises. The database they leave is the one
  they were given, so no balance was written and no ledger record was appended.
\<close>

theorem unknown_user_raises_on_read:
  assumes "flt (Finite 0) val" and "sel = ''current'' \<or> sel = ''savings''"
    and "PyStr u \<notin> acc_username ` set (tbl_accounts d)"
  shows "deposit_into_account lib d u val sel = (Inl TypeError, d) \<and>
         withdraw_from_account lib d u val sel = (Inl TypeError, d) \<and>
         transfer_between_accounts lib d u val sel = (Inl TypeError, d)"
proof -
  have g0: "\<not> fle val (Finite 0)" using assms(1) by (rule flt_zero_guard)
  have c: "get_current_balance lib d u = Inl TypeError"
    using assms(3) by (simp add: get_current_balance_def get_column_no_row)
  have s: "get_savings_balance lib d u = Inl TypeError"
    using assms(3) by (simp add: get_savings_balance_def get_column_no_row)
  have ac: "add_current_balance lib d u x = (Inl TypeError, d)" for x
    by (simp add: add_current_balance_def c)
  have as: "add_savings_balance lib d u x = (Inl TypeError, d)" for x
    by (simp add: add_savings_balance_def s)
  show ?thesis using g0 assms(2)
    by (auto simp: deposit_into_account_def withdraw_from_account_def
          transfer_between_accounts_def and_then_def ac as)
qed

theorem unknown_user_raises_on_read_witness:
  "flt (Finite 0) (Finite 10) \<and> PyStr ''bob'' \<notin> acc_username ` set (tbl_accounts db0) \<and>
   deposit_into_account lib0 db0 ''bob'' (Finite 10) ''current'' = (Inl TypeError, db0) \<and>
   withdraw_from_account lib0 db0 ''bob'' (Finite 10) ''savings'' = (Inl TypeError, db0) \<and>
   transfer_between_accounts lib0 db0 ''bob'' (Finite 10) ''savings'' = (Inl TypeError, db0)"
  using unknown_user_raises_on_read [of "Finite 10" "''current''" "''bob''" db0 lib0]
        unknown_user_raises_on_read [of "Finite 10" "''savings''" "''bob''" db0 lib0]
  by simp

subsection \<open>The account store\<close>

text \<open>
  Claim C7. With the account store accepting writes, \<open>create_new_user\<close> for a username
  that a row of the table already carries raises IntegrityError, the exception of the
  UNIQUE constraint (the spec's DuplicateUser), and the database it leaves is the one it
  was given: the existing row and both of its balances are as before.
\<close>

theorem duplicate_user_rejected:
  assumes "\<not> users_write_fault d" and "PyStr u \<in> acc_username ` set (tbl_accounts d)"
  shows "create_new_user h d u dn pw c s = (Inl IntegrityError, d)"
  using assms
  by (simp add: create_new_user_def execute_insert_account_def)

theorem duplicate_user_rejected_witness:
  "\<not> users_write_fault db0 \<and> PyStr ''alice'' \<in> acc_username ` set (tbl_accounts db0) \<and>
   create_new_user (\<lambda>p. p) db0 ''alice'' ''Mallory'' ''pw'' (Finite 0) (Finite 0)
     = (Inl IntegrityError, db0) \<and>
   get_current_balance lib0 db0 ''alice'' = Inr (Finite 100) \<and>
   get_savings_balance lib0 db0 ''alice'' = Inr (Finite 50)"
  using duplicate_user_rejected
          [OF db0_users_writable db0_alice_present,
           of "\<lambda>p. p" "''Mallory''" "''pw''" "Finite 0" "Finite 0"]
  by simp

text \<open>
  Claim C8. The allow-list is the six column names. For a column outside it,
  \<open>get_column_from_username\<close> and \<open>set_column_from_username\<close> both raise the ValueError
  for a disallowed column (the spec's InvalidColumn) and the database is the one given. For
  a column inside it, neither raises a ValueError.
\<close>

theorem column_allow_list:
  "set ALLOWED_COLUMNS =
     {''id'', ''username'', ''display_name'', ''password_hash'', ''current_balance'',
      ''savings_balance''} \<and>
   (column \<notin> set ALLOWED_COLUMNS \<longrightarrow>
      get_column_from_username d column u = Inl (ValueError (''Disallowed column: '' @ column)) \<and>
      set_column_from_username lib d column u v =
        (Inl (ValueError (''Disallowed column: '' @ column)), d)) \<and>
   (column \<in> set ALLOWED_COLUMNS \<longrightarrow>
      (\<forall>msg. get_column_from_username d column u \<noteq> Inl (ValueError msg)) \<and>
      (\<forall>msg. fst (set_column_from_username lib d column u v) \<noteq> Inl (ValueError msg)))"
proof (intro conjI impI allI)
  show "set ALLOWED_COLUMNS =
     {''id'', ''username'', ''display_name'', ''password_hash'', ''current_balance'',
      ''savings_balance''}"
    by (simp add: ALLOWED_COLUMNS_def)
next
  assume "column \<notin> set ALLOWED_COLUMNS"
  then show "get_column_from_username d column u =
      Inl (ValueError (''Disallowed column: '' @ column))"
    by (simp add: get_column_from_username_def)
next
  assume "column \<notin> set ALLOWED_COLUMNS"
  then show "set_column_from_username lib d column u v =
      (Inl (ValueError (''Disallowed column: '' @ column)), d)"
    by (simp add: set_column_from_username_def)
next
  fix msg
  assume "column \<in> set ALLOWED_COLUMNS"
  then show "get_column_from_username d column u \<noteq> Inl (ValueError msg)"
    by (simp add: get_column_from_username_def execute_select_column_def
          split: option.splits)
next
  fix msg
  assume a: "column \<in> set ALLOWED_COLUMNS"
  have b: "bind_param v = Inl e \<Longrightarrow> e = OverflowError" for e
    by (cases v) (auto split: if_splits)
  have "execute_update_column lib d column u v \<noteq> Inl (ValueError m)" for m
    using b by (auto simp: execute_update_column_def split: sum.splits if_splits)
  then show "fst (set_column_from_username lib d column u v) \<noteq> Inl (ValueError msg)"
    using a by (auto simp: set_column_from_username_def split: sum.splits exn.splits)
qed

theorem column_allow_list_witness:
  "''invalid_column'' \<notin> set ALLOWED_COLUMNS \<and>
   get_column_from_username db0 ''invalid_column'' ''alice'' =
     Inl (ValueError ''Disallowed column: invalid_column'') \<and>
   set_column_from_username lib0 db0 ''invalid_column'' ''alice'' (PyInt 1) =
     (Inl (ValueError ''Disallowed column: invalid_column''), db0) \<and>
   ''display_name'' \<in> set ALLOWED_COLUMNS \<and>
   (\<forall>msg. get_column_from_username db0 ''display_name'' ''alice'' \<noteq> Inl (ValueError msg)) \<and>
   (\<forall>msg. fst (set_column_from_username lib0 db0 ''display_name'' ''alice'' (PyStr ''Al''))
            \<noteq> Inl (ValueError msg))"
proof -
  have n: "''invalid_column'' \<notin> set ALLOWED_COLUMNS" by (simp add: ALLOWED_COLUMNS_def)
  have y: "''display_name'' \<in> set ALLOWED_COLUMNS" by (simp add: ALLOWED_COLUMNS_def)
  show ?thesis
    using n y column_allow_list [of "''invalid_column''" db0 "''alice''" lib0 "PyInt 1"]
      column_allow_list [of "''display_name''" db0 "''alice''" lib0 "PyStr ''Al''"]
    by simp
qed

subsection \<open>The ledger store\<close>

text \<open>
  Claim C9, as the specification words it, asks for the records whose timestamp is not
  older than seven days before the instant of the query. The query compares with
  \<^verbatim>\<open>date('now', '-7 days')\<close>, which is a day, not an instant: read at noon of day 8, the
  record stamped with the first second of day 1 is returned though it is seven and a half
  days old.
\<close>

theorem get_transactions_window_counterexample:
  "get_transactions db_week ''alice'' = Inr [row_day8, row_day1] \<and>
   \<not> spec_within_last_7_days (clock db_week) (txn_timestamp row_day1)"
  by (simp add: get_transactions_def execute_select_transactions_def db_week_def
        row_day0_def row_day1_def row_bob_def row_day8_def
        timestamp_ge_date_def date_now_minus_7_days_def spec_within_last_7_days_def)

text \<open>
  Claim C9, amended. With the ledger store readable, \<open>get_transactions\<close> returns exactly
  the records of the username whose timestamp falls on a day not before the day that lies
  seven days before the day of the store's clock (each record once, as a multiset), ordered
  by timestamp descending. With the ledger store unreachable for the read it returns the
  empty list. In neither case does it raise.
\<close>

theorem get_transactions_window:
  "(\<not> transactions_read_fault d \<longrightarrow>
      (\<exists>rows. get_transactions d u = Inr rows \<and>
         mset rows =
           mset (filter (\<lambda>r. txn_username r = u \<and>
                               clock d div 86400 - 7 \<le> txn_timestamp r div 86400)
                   (tbl_transactions d)) \<and>
         sorted_wrt (\<lambda>a b. txn_timestamp b \<le> txn_timestamp a) rows)) \<and>
   (transactions_read_fault d \<longrightarrow> get_transactions d u = Inr [])"
proof (intro conjI impI)
  assume nf: "\<not> transactions_read_fault d"
  let ?sel = "filter (\<lambda>r. txn_username r = u \<and>
                           clock d div 86400 - 7 \<le> txn_timestamp r div 86400)
                (tbl_transactions d)"
  let ?rows = "sort_key (\<lambda>r. - txn_timestamp r) ?sel"
  have g: "get_transactions d u = Inr ?rows"
    using nf by (simp add: get_transactions_def execute_select_transactions_def
        timestamp_ge_date_def date_now_minus_7_days_def)
  have m: "mset ?rows = mset ?sel" by simp
  have "sorted (map (\<lambda>r. - txn_timestamp r) ?rows)" by (rule sorted_sort_key)
  then have s: "sorted_wrt (\<lambda>a b. txn_timestamp b \<le> txn_timestamp a) ?rows"
    by (simp add: sorted_map)
  show "\<exists>rows. get_transactions d u = Inr rows \<and> mset rows = mset ?sel \<and>
         sorted_wrt (\<lambda>a b. txn_timestamp b \<le> txn_timestamp a) rows"
    using g m s by blast
next
  assume "transactions_read_fault d"
  then show "get_transactions d u = Inr []"
    by (simp add: get_transactions_def execute_select_transactions_def)
qed

theorem get_transactions_window_witness:
  "\<not> transactions_read_fault db_week \<and>
   (\<exists>rows. get_transactions db_week ''alice'' = Inr rows \<and>
      mset rows = {#row_day1, row_day8#} \<and>
      sorted_wrt (\<lambda>a b. txn_timestamp b \<le> txn_timestamp a) rows) \<and>
   transactions_read_fault (db_week\<lparr>transactions_read_fault := True\<rparr>) \<and>
   get_transactions (db_week\<lparr>transactions_read_fault := True\<rparr>) ''alice'' = Inr []"
proof -
  have nf: "\<not> transactions_read_fault db_week" by (simp add: db_week_def)
  have f: "filter (\<lambda>r. txn_username r = ''alice'' \<and>
                    clock db_week div 86400 - 7 \<le> txn_timestamp r div 86400)
             (tbl_transactions db_week) = [row_day1, row_day8]"
    by (simp add: db_week_def row_day0_def row_day1_def row_bob_def row_day8_def)
  from get_transactions_window [of db_week "''alice''"] nf
  have 1: "\<exists>rows. get_transactions db_week ''alice'' = Inr rows \<and>
      mset rows = {#row_day1, row_day8#} \<and>
      sorted_wrt (\<lambda>a b. txn_timestamp b \<le> txn_timestamp a) rows"
    by (simp add: f)
  have 2: "get_transactions (db_week\<lparr>transactions_read_fault := True\<rparr>) ''alice'' = Inr []"
    using get_transactions_window [of "db_week\<lparr>transactions_read_fault := True\<rparr>" "''alice''"]
    by simp
  show ?thesis using nf 1 2 by simp
qed

end
